theory Spec2Isabelle
  imports Main
begin

section \<open>The sharding node of client/node/node.go\<close>

text \<open>
  The file \<^verbatim>\<open>client/node/node.go\<close> defines \<^verbatim>\<open>ShardEthereum\<close>, the supervisor of the
  services of a sharding client: \<^verbatim>\<open>NewShardInstance\<close> builds it, \<^verbatim>\<open>Start\<close> starts the
  services and installs the handler of interrupt signals, \<^verbatim>\<open>Close\<close> shuts it down.
  Go functions that change their receiver take the receiver and return it changed; a Go
  result \<^verbatim>\<open>error\<close> is an \<open>error option\<close> (\<open>None\<close> is \<^verbatim>\<open>nil\<close>), a result
  \<^verbatim>\<open>(*T, error)\<close> is a pair of options.
\<close>

subsection \<open>Services, errors and calls\<close>

text \<open>
  The dynamic types under which services are registered (\<^verbatim>\<open>reflect.TypeOf\<close> of the
  registered pointer): \<^verbatim>\<open>*p2p.Server\<close>, \<^verbatim>\<open>*txpool.TXPool\<close>, \<^verbatim>\<open>*rpcclient.Service\<close>,
  \<^verbatim>\<open>*beacon.Service\<close>, \<^verbatim>\<open>*attester.Attester\<close>, \<^verbatim>\<open>*proposer.Proposer\<close>.
\<close>

datatype service_kind =
  P2PServerT | TXPoolT | RPCClientT | BeaconT | AttesterT | ProposerT

text \<open>
  A service value records what its constructor was given: \<^verbatim>\<open>p2p.NewServer()\<close>,
  \<^verbatim>\<open>txpool.NewTXPool(shardp2p)\<close>, \<^verbatim>\<open>rpcclient.NewRPCClient(ctx, &Config{Endpoint: e})\<close>,
  \<^verbatim>\<open>beacon.NewBeaconClient(ctx, cfg, rpcService)\<close>, \<^verbatim>\<open>attester.NewAttester(ctx, b)\<close>,
  \<^verbatim>\<open>proposer.NewProposer(ctx, b)\<close>. The internals of the services are outside node.go.
\<close>

datatype service =
  P2PServer
| TXPool service
| RPCClient string
| BeaconClient service
| Attester service
| Proposer service

fun kind_of :: "service \<Rightarrow> service_kind" where
  "kind_of P2PServer = P2PServerT"
| "kind_of (TXPool _) = TXPoolT"
| "kind_of (RPCClient _) = RPCClientT"
| "kind_of (BeaconClient _) = BeaconT"
| "kind_of (Attester _) = AttesterT"
| "kind_of (Proposer _) = ProposerT"

text \<open>
  Errors: \<open>Err m\<close> is an error value handed back by a collaborator's constructor,
  \<open>Errorf f e\<close> is \<^verbatim>\<open>fmt.Errorf(f, e)\<close>, and the two errors of the registry.
\<close>

datatype error =
  Err string
| Errorf string error
| DuplicateService service_kind
| UnregisteredService service_kind

record DBConfig =
  DataDir :: string
  Name :: string
  InMemory :: bool

datatype DB = DB DBConfig

datatype log_arg = S string | I int

text \<open>
  The calls node.go makes to its collaborators, to the logger and to the Go runtime, in
  the order they happen. The supervisor carries this history in the field \<open>calls\<close>.
\<close>

datatype call =
  CallNewDB DBConfig
| CallNewServer
| CallNewTXPool service
| CallNewRPCClient string
| CallNewBeaconClient service
| CallNewAttester service
| CallNewProposer service
| CallRegisterService service
| CallFetchService service_kind
| CallLock
| CallUnlock
| CallLogInfo "log_arg list"
| CallStartService service_kind
| CallStopService service_kind
| CallDBClose
| CallCloseStop
| CallSignalNotify
| CallGoClose
| CallDebugExit
| CallPanic string
| CallSignalStop

subsection \<open>The service registry\<close>

text \<open>
  Modelled from the spec: \<^verbatim>\<open>shared.ServiceRegistry\<close> (package \<^verbatim>\<open>shared\<close>, whose source is
  not part of node.go). The spec's section 3 gives it an ordered sequence of registered
  services and a mapping from capability type to the registered instance; section 4.1
  gives the operations.
\<close>

record ServiceRegistry =
  services_map :: "service_kind \<rightharpoonup> service"
  serviceTypes :: "service_kind list"

definition NewServiceRegistry :: ServiceRegistry where
  "NewServiceRegistry = \<lparr>services_map = Map.empty, serviceTypes = []\<rparr>"

text \<open>
  Modelled from the spec: \<^verbatim>\<open>Register(service)\<close> inserts the service keyed by its type
  and appends it to the ordered sequence; it fails with DuplicateService if a service of
  that type is already present, and then changes nothing.
\<close>

definition RegisterService :: "ServiceRegistry \<Rightarrow> service \<Rightarrow> ServiceRegistry \<times> error option" where
  "RegisterService r svc =
     (case services_map r (kind_of svc) of
        Some _ \<Rightarrow> (r, Some (DuplicateService (kind_of svc)))
      | None \<Rightarrow>
          (r\<lparr>services_map := (services_map r)(kind_of svc \<mapsto> svc),
             serviceTypes := serviceTypes r @ [kind_of svc]\<rparr>, None))"

text \<open>
  Modelled from the spec: \<^verbatim>\<open>Fetch(capabilityType)\<close> returns the registered instance of
  that type and fails with UnregisteredService if there is none.
\<close>

definition FetchService :: "ServiceRegistry \<Rightarrow> service_kind \<Rightarrow> error + service" where
  "FetchService r k =
     (case services_map r k of
        None \<Rightarrow> Inl (UnregisteredService k)
      | Some svc \<Rightarrow> Inr svc)"

text \<open>
  Modelled from the spec: \<^verbatim>\<open>StartAll\<close> calls Start on every registered service in
  registration order; \<^verbatim>\<open>StopAll\<close> calls Stop on every registered service, in reverse
  registration order (the spec's default). A failing Start or Stop is logged by the
  registry and does not stop the traversal.
\<close>

definition StartAll :: "ServiceRegistry \<Rightarrow> call list" where
  "StartAll r = map CallStartService (serviceTypes r)"

definition StopAll :: "ServiceRegistry \<Rightarrow> call list" where
  "StopAll r = map CallStopService (rev (serviceTypes r))"

subsection \<open>The supervisor and its construction\<close>

text \<open>
  What \<^verbatim>\<open>NewShardInstance\<close> reads from outside: the three global flags of the
  \<^verbatim>\<open>cli.Context\<close>, and the error results of the constructors that can fail
  (\<^verbatim>\<open>database.NewDB\<close>, \<^verbatim>\<open>p2p.NewServer\<close>, \<^verbatim>\<open>txpool.NewTXPool\<close>); \<open>None\<close> is a \<^verbatim>\<open>nil\<close>
  error. These constructors are outside node.go and are parameters here.
\<close>

record env =
  DataDirFlag :: string
  ActorFlag :: string
  BeaconRPCProviderFlag :: string
  NewDB_err :: "DBConfig \<Rightarrow> error option"
  NewServer_err :: "error option"
  NewTXPool_err :: "service \<Rightarrow> error option"

text \<open>
  The struct \<^verbatim>\<open>ShardEthereum\<close>: the registry, the lock (held or not), the channel
  \<^verbatim>\<open>stop\<close> (closed or not; nothing is ever sent on it) and the database handle (\<open>None\<close>
  is the \<^verbatim>\<open>nil\<close> pointer). The field \<^verbatim>\<open>shardConfig\<close> is set once to
  \<^verbatim>\<open>params.DefaultConfig()\<close> and never read in node.go; it is left out.
\<close>

record ShardEthereum =
  services :: ServiceRegistry
  lock :: bool
  stop_closed :: bool
  db :: "DB option"
  calls :: "call list"

definition shardChainDBName :: string where
  "shardChainDBName = ''shardchaindata''"

definition called :: "call list \<Rightarrow> ShardEthereum \<Rightarrow> ShardEthereum" where
  "called cs s = s\<lparr>calls := calls s @ cs\<rparr>"

text \<open>\<^verbatim>\<open>s.services.RegisterService(svc)\<close> and \<^verbatim>\<open>s.services.FetchService(&v)\<close> on the supervisor.\<close>

definition register_service :: "service \<Rightarrow> ShardEthereum \<Rightarrow> ShardEthereum \<times> error option" where
  "register_service svc s =
     (case RegisterService (services s) svc of
        (r, err) \<Rightarrow> (called [CallRegisterService svc] (s\<lparr>services := r\<rparr>), err))"

definition fetch_service :: "service_kind \<Rightarrow> ShardEthereum \<Rightarrow> ShardEthereum \<times> (error + service)" where
  "fetch_service k s = (called [CallFetchService k] s, FetchService (services s) k)"

definition startDB :: "env \<Rightarrow> ShardEthereum \<Rightarrow> ShardEthereum \<times> error option" where
  "startDB ctx s =
     (let path = DataDirFlag ctx;
          config = \<lparr>DataDir = path, Name = shardChainDBName, InMemory = False\<rparr>;
          s = called [CallNewDB config] s
      in case NewDB_err ctx config of
           Some err \<Rightarrow> (s, Some err)
         | None \<Rightarrow> (s\<lparr>db := Some (DB config)\<rparr>, None))"

definition registerP2P :: "env \<Rightarrow> ShardEthereum \<Rightarrow> ShardEthereum \<times> error option" where
  "registerP2P ctx s =
     (let s = called [CallNewServer] s
      in case NewServer_err ctx of
           Some err \<Rightarrow> (s, Some (Errorf ''could not register shardp2p service: %v'' err))
         | None \<Rightarrow> register_service P2PServer s)"

definition registerTXPool :: "env \<Rightarrow> string \<Rightarrow> ShardEthereum \<Rightarrow> ShardEthereum \<times> error option" where
  "registerTXPool ctx actor s =
     (if actor \<noteq> ''proposer'' then (s, None)
      else case fetch_service P2PServerT s of
             (s, Inl err) \<Rightarrow> (s, Some err)
           | (s, Inr shardp2p) \<Rightarrow>
               (let s = called [CallNewTXPool shardp2p] s
                in case NewTXPool_err ctx shardp2p of
                     Some err \<Rightarrow> (s, Some (Errorf ''could not register shard txpool service: %v'' err))
                   | None \<Rightarrow> register_service (TXPool shardp2p) s))"

definition registerBeaconService :: "ShardEthereum \<Rightarrow> ShardEthereum \<times> error option" where
  "registerBeaconService s =
     (case fetch_service RPCClientT s of
        (s, Inl err) \<Rightarrow> (s, Some err)
      | (s, Inr rpcService) \<Rightarrow>
          register_service (BeaconClient rpcService) (called [CallNewBeaconClient rpcService] s))"

definition registerActorService :: "string \<Rightarrow> ShardEthereum \<Rightarrow> ShardEthereum \<times> error option" where
  "registerActorService actor s =
     (case fetch_service BeaconT s of
        (s, Inl err) \<Rightarrow> (s, Some err)
      | (s, Inr beaconService) \<Rightarrow>
          if actor = ''attester'' then
            register_service (Attester beaconService) (called [CallNewAttester beaconService] s)
          else if actor = ''proposer'' then
            register_service (Proposer beaconService) (called [CallNewProposer beaconService] s)
          else (s, None))"

definition registerRPCClientService :: "env \<Rightarrow> ShardEthereum \<Rightarrow> ShardEthereum \<times> error option" where
  "registerRPCClientService ctx s =
     (let endpoint = BeaconRPCProviderFlag ctx;
          s = called [CallNewRPCClient endpoint] s
      in register_service (RPCClient endpoint) s)"

text \<open>
  The struct literal of \<^verbatim>\<open>NewShardInstance\<close>: a new registry, a new open channel, the
  zero value of the lock and a \<^verbatim>\<open>nil\<close> database.
\<close>

definition new_shardEthereum :: ShardEthereum where
  "new_shardEthereum =
     \<lparr>services = NewServiceRegistry, lock = False, stop_closed = False, db = None, calls = []\<rparr>"

text \<open>
  The body of \<^verbatim>\<open>NewShardInstance\<close>: the value of the local \<^verbatim>\<open>shardEthereum\<close> when the
  function returns, and the error it returns.
\<close>

definition NewShardInstance_body :: "env \<Rightarrow> ShardEthereum \<times> error option" where
  "NewShardInstance_body ctx =
     (let shardEthereum = new_shardEthereum in
      case startDB ctx shardEthereum of
        (s, Some err) \<Rightarrow> (s, Some err)
      | (s, None) \<Rightarrow>
     (case registerP2P ctx s of
        (s, Some err) \<Rightarrow> (s, Some err)
      | (s, None) \<Rightarrow>
     (let actorFlag = ActorFlag ctx in
      case registerTXPool ctx actorFlag s of
        (s, Some err) \<Rightarrow> (s, Some err)
      | (s, None) \<Rightarrow>
     (case registerRPCClientService ctx s of
        (s, Some err) \<Rightarrow> (s, Some err)
      | (s, None) \<Rightarrow>
     (case registerBeaconService s of
        (s, Some err) \<Rightarrow> (s, Some err)
      | (s, None) \<Rightarrow>
     (case registerActorService actorFlag s of
        (s, Some err) \<Rightarrow> (s, Some err)
      | (s, None) \<Rightarrow> (s, None)))))))"

text \<open>
  \<^verbatim>\<open>NewShardInstance\<close> returns \<^verbatim>\<open>(nil, err)\<close> at every error and
  \<^verbatim>\<open>(shardEthereum, nil)\<close> at the end.
\<close>

definition NewShardInstance :: "env \<Rightarrow> ShardEthereum option \<times> error option" where
  "NewShardInstance ctx =
     (case NewShardInstance_body ctx of
        (s, Some err) \<Rightarrow> (None, Some err)
      | (s, None) \<Rightarrow> (Some s, None))"

text \<open>
  The steps of \<^verbatim>\<open>NewShardInstance\<close> after the struct literal, in the order of the source,
  and what running a list of steps up to the first error gives.
\<close>

definition build_steps :: "env \<Rightarrow> (ShardEthereum \<Rightarrow> ShardEthereum \<times> error option) list" where
  "build_steps ctx =
     [startDB ctx, registerP2P ctx, registerTXPool ctx (ActorFlag ctx),
      registerRPCClientService ctx, registerBeaconService,
      registerActorService (ActorFlag ctx)]"

fun run_steps ::
  "(ShardEthereum \<Rightarrow> ShardEthereum \<times> error option) list \<Rightarrow> ShardEthereum \<Rightarrow> ShardEthereum \<times> error option"
where
  "run_steps [] s = (s, None)"
| "run_steps (f # fs) s =
     (case f s of
        (s', Some err) \<Rightarrow> (s', Some err)
      | (s', None) \<Rightarrow> run_steps fs s')"

text \<open>The configuration \<^verbatim>\<open>startDB\<close> hands to \<^verbatim>\<open>database.NewDB\<close>.\<close>

definition db_config :: "env \<Rightarrow> DBConfig" where
  "db_config ctx = \<lparr>DataDir = DataDirFlag ctx, Name = shardChainDBName, InMemory = False\<rparr>"

subsection \<open>Close\<close>

text \<open>
  How a call ends: it returns, it panics, or it waits for ever (here: for the lock, which
  nobody else releases when the call runs alone).
\<close>

datatype outcome = Returned | Panicked string | Blocked

text \<open>
  \<^verbatim>\<open>Close\<close>, run with nothing else running. \<^verbatim>\<open>s.lock.Lock()\<close> waits while the lock is
  held. \<^verbatim>\<open>s.db.Close()\<close> is a call into package \<^verbatim>\<open>database\<close>. \<^verbatim>\<open>close(s.stop)\<close> on a closed
  channel is a run-time panic of Go; the deferred \<^verbatim>\<open>s.lock.Unlock()\<close> runs before the
  function is left, on a return and on a panic.
\<close>

definition Close :: "ShardEthereum \<Rightarrow> ShardEthereum \<times> outcome" where
  "Close s =
     (if lock s then (s, Blocked)
      else
        let s = called [CallLock] (s\<lparr>lock := True\<rparr>);
            s = called [CallDBClose] s;
            s = called (StopAll (services s)) s;
            s = called [CallLogInfo [S ''Stopping sharding node'']] s;
            s = called [CallCloseStop] s
        in if stop_closed s
           then (called [CallUnlock] (s\<lparr>lock := False\<rparr>), Panicked ''close of closed channel'')
           else (called [CallUnlock] (s\<lparr>stop_closed := True, lock := False\<rparr>), Returned))"

text \<open>The calls a run has added to the history of the supervisor it started from.\<close>

definition new_calls :: "ShardEthereum \<Rightarrow> ShardEthereum \<Rightarrow> call list" where
  "new_calls s s' = drop (length (calls s)) (calls s')"

subsection \<open>The handler of interrupt signals\<close>

text \<open>
  The goroutine that \<^verbatim>\<open>Start\<close> spawns (lines 99 to 114). It waits on the channel
  \<^verbatim>\<open>sigc\<close> at two places: at line 103 (\<open>H_Running\<close>) and at line 107, inside the loop,
  with the loop variable \<^verbatim>\<open>i\<close> (\<open>H_ShuttingDown i\<close>). After the loop it calls
  \<^verbatim>\<open>debug.Exit()\<close> and panics (\<open>H_ForcedTermination\<close>). \<open>H_Install\<close> is the goroutine
  before \<^verbatim>\<open>signal.Notify\<close>. A notification is a value received from \<^verbatim>\<open>sigc\<close>.
\<close>

datatype handler_pc =
  H_Install | H_Running | H_ShuttingDown int | H_ForcedTermination

text \<open>
  The end of the goroutine (lines 112 and 113): \<^verbatim>\<open>debug.Exit()\<close>, the panic, and the
  deferred \<^verbatim>\<open>signal.Stop(sigc)\<close> of line 102, which runs as the panic leaves the function.
\<close>

definition forced_exit :: "call list" where
  "forced_exit =
     [CallDebugExit, CallPanic ''Panic closing the sharding node'', CallSignalStop]"

text \<open>
  The head of \<^verbatim>\<open>for i := 10; i > 0; i--\<close>: with \<^verbatim>\<open>i > 0\<close> the goroutine waits at line 107,
  otherwise it leaves the loop and ends.
\<close>

definition loop_head :: "int \<Rightarrow> handler_pc \<times> call list" where
  "loop_head i =
     (if i > 0 then (H_ShuttingDown i, [])
      else (H_ForcedTermination, forced_exit))"

text \<open>
  The warning of line 109: \<^verbatim>\<open>log.Info("Already shutting down, interrupt more to panic.",
  "times", i-1)\<close>, by the number it carries.
\<close>

definition warning :: "int \<Rightarrow> call" where
  "warning n =
     CallLogInfo [S ''Already shutting down, interrupt more to panic.'', S ''times'', I n]"

text \<open>
  What the goroutine does when it receives one notification, up to its next wait: the
  place it waits at next and the calls it has made.
\<close>

fun notify :: "handler_pc \<Rightarrow> handler_pc \<times> call list" where
  "notify H_Install = (H_Install, [])"
| "notify H_Running =
     (case loop_head 10 of
        (pc, cs) \<Rightarrow> (pc, [CallLogInfo [S ''Got interrupt, shutting down...''], CallGoClose] @ cs))"
| "notify (H_ShuttingDown i) =
     (case loop_head (i - 1) of
        (pc, cs) \<Rightarrow> (pc, (if i > 1 then [warning (i - 1)] else []) @ cs))"
| "notify H_ForcedTermination = (H_ForcedTermination, [])"

text \<open>\<open>n\<close> notifications, one after the other, from a place of the goroutine.\<close>

fun feed :: "nat \<Rightarrow> handler_pc \<Rightarrow> handler_pc" where
  "feed 0 pc = pc"
| "feed (Suc n) pc = feed n (fst (notify pc))"

text \<open>
  The installed handler after its first \<open>n\<close> notifications: where it is and every call
  it has made since \<^verbatim>\<open>signal.Notify\<close>.
\<close>

fun handler_run :: "nat \<Rightarrow> handler_pc \<times> call list" where
  "handler_run 0 = (H_Running, [CallSignalNotify])"
| "handler_run (Suc n) =
     (case handler_run n of
        (pc, cs) \<Rightarrow> (case notify pc of (pc', cs') \<Rightarrow> (pc', cs @ cs')))"

subsection \<open>Start, Close and the handler running together\<close>

text \<open>
  The goroutines of the process: the one that called \<^verbatim>\<open>Start\<close>, the handler, and one for
  every call of \<^verbatim>\<open>Close\<close> (the handler's \<^verbatim>\<open>go s.Close()\<close>, or a call from elsewhere in
  the embedding program). Each is at a statement of the source; a step runs one
  statement of one goroutine.
\<close>

datatype start_pc =
  S_Lock | S_Log | S_StartAll | S_Unlock | S_Go | S_Wait | S_Returned

datatype close_pc =
  C_Lock | C_DBClose | C_StopAll | C_Log | C_CloseStop | C_Unlock bool | C_Returned | C_Panicked

text \<open>
  One statement of \<^verbatim>\<open>Close\<close>; \<open>None\<close> when the goroutine cannot move (it waits for the
  lock, or it is done). \<open>C_Unlock p\<close> is the deferred unlock, \<open>p\<close> telling whether
  \<^verbatim>\<open>close(s.stop)\<close> panicked.
\<close>

fun close_step :: "close_pc \<Rightarrow> ShardEthereum \<Rightarrow> (close_pc \<times> ShardEthereum) option" where
  "close_step C_Lock s =
     (if lock s then None else Some (C_DBClose, called [CallLock] (s\<lparr>lock := True\<rparr>)))"
| "close_step C_DBClose s = Some (C_StopAll, called [CallDBClose] s)"
| "close_step C_StopAll s = Some (C_Log, called (StopAll (services s)) s)"
| "close_step C_Log s = Some (C_CloseStop, called [CallLogInfo [S ''Stopping sharding node'']] s)"
| "close_step C_CloseStop s =
     (if stop_closed s then Some (C_Unlock True, called [CallCloseStop] s)
      else Some (C_Unlock False, called [CallCloseStop] (s\<lparr>stop_closed := True\<rparr>)))"
| "close_step (C_Unlock p) s =
     Some (if p then C_Panicked else C_Returned, called [CallUnlock] (s\<lparr>lock := False\<rparr>))"
| "close_step C_Returned s = None"
| "close_step C_Panicked s = None"

text \<open>
  One statement of \<^verbatim>\<open>Start\<close> (lines 90 to 97 and 117) on the supervisor; the statement
  \<^verbatim>\<open>go func() {...}()\<close> of line 99 is in \<open>step\<close> below. The receive \<^verbatim>\<open><-stop\<close> of line 117
  goes on only when the channel is closed: nothing is ever sent on it.
\<close>

fun start_step :: "start_pc \<Rightarrow> ShardEthereum \<Rightarrow> (start_pc \<times> ShardEthereum) option" where
  "start_step S_Lock s =
     (if lock s then None else Some (S_Log, called [CallLock] (s\<lparr>lock := True\<rparr>)))"
| "start_step S_Log s = Some (S_StartAll, called [CallLogInfo [S ''Starting sharding node'']] s)"
| "start_step S_StartAll s = Some (S_Unlock, called (StartAll (services s)) s)"
| "start_step S_Unlock s = Some (S_Go, called [CallUnlock] (s\<lparr>lock := False\<rparr>))"
| "start_step S_Go s = Some (S_Wait, s)"
| "start_step S_Wait s = (if stop_closed s then Some (S_Returned, s) else None)"
| "start_step S_Returned s = None"

record system =
  node :: ShardEthereum
  start :: start_pc
  handler :: "handler_pc option"
  closers :: "close_pc list"

definition init_system :: "ShardEthereum \<Rightarrow> system" where
  "init_system s = \<lparr>node = s, start = S_Lock, handler = None, closers = []\<rparr>"

text \<open>
  What can happen next: the goroutine of \<^verbatim>\<open>Start\<close> runs a statement, the handler installs
  itself, the handler receives a notification, some caller calls \<^verbatim>\<open>Close\<close>, or the
  \<open>i\<close>-th call of \<^verbatim>\<open>Close\<close> runs a statement.
\<close>

datatype action = ActStart | ActHandler | ActSignal | ActCallClose | ActClose nat

text \<open>
  One step of the process; \<open>None\<close> when the action cannot happen. Once the handler has
  panicked the process is gone and nothing happens any more. A panic of \<^verbatim>\<open>Close\<close> ends
  its goroutine; the other goroutines may go on (the caller may recover), which only adds
  runs.
\<close>

definition step :: "action \<Rightarrow> system \<Rightarrow> system option" where
  "step a sys =
     (if handler sys = Some H_ForcedTermination then None
      else case a of
        ActStart \<Rightarrow>
          (case start_step (start sys) (node sys) of
             None \<Rightarrow> None
           | Some (pc, s) \<Rightarrow>
               Some (sys\<lparr>node := s, start := pc,
                         handler := (if start sys = S_Go then Some H_Install else handler sys)\<rparr>))
      | ActHandler \<Rightarrow>
          (if handler sys = Some H_Install
           then Some (sys\<lparr>node := called [CallSignalNotify] (node sys), handler := Some H_Running\<rparr>)
           else None)
      | ActSignal \<Rightarrow>
          (case handler sys of
             None \<Rightarrow> None
           | Some H_Install \<Rightarrow> None
           | Some pc \<Rightarrow>
               (case notify pc of
                  (pc', cs) \<Rightarrow>
                    Some (sys\<lparr>node := called cs (node sys), handler := Some pc',
                              closers := closers sys @ (if CallGoClose \<in> set cs then [C_Lock] else [])\<rparr>)))
      | ActCallClose \<Rightarrow> Some (sys\<lparr>closers := closers sys @ [C_Lock]\<rparr>)
      | ActClose i \<Rightarrow>
          (if i < length (closers sys)
           then case close_step (closers sys ! i) (node sys) of
                  None \<Rightarrow> None
                | Some (pc, s) \<Rightarrow> Some (sys\<lparr>node := s, closers := (closers sys)[i := pc]\<rparr>)
           else None))"

fun run :: "action list \<Rightarrow> system \<Rightarrow> system option" where
  "run [] sys = Some sys"
| "run (a # as) sys = (case step a sys of None \<Rightarrow> None | Some sys' \<Rightarrow> run as sys')"

text \<open>A call of \<^verbatim>\<open>Close\<close> that has run \<^verbatim>\<open>close(s.stop)\<close> on the open channel.\<close>

fun fired :: "close_pc \<Rightarrow> bool" where
  "fired (C_Unlock p) = (\<not> p)"
| "fired C_Returned = True"
| "fired _ = False"

subsection \<open>Example inputs\<close>

text \<open>
  A context in which every constructor succeeds, and contexts in which the database, the
  networking server or the transaction pool cannot be built.
\<close>

definition env_ok :: "string \<Rightarrow> env" where
  "env_ok actor =
     \<lparr>DataDirFlag = ''/data'', ActorFlag = actor, BeaconRPCProviderFlag = ''localhost:4000'',
      NewDB_err = (\<lambda>_. None), NewServer_err = None, NewTXPool_err = (\<lambda>_. None)\<rparr>"

definition env_db_fails :: env where
  "env_db_fails = (env_ok ''attester'')\<lparr>NewDB_err := (\<lambda>_. Some (Err ''cannot open database''))\<rparr>"

definition env_p2p_fails :: env where
  "env_p2p_fails = (env_ok ''attester'')\<lparr>NewServer_err := Some (Err ''no address'')\<rparr>"

definition env_txpool_fails :: env where
  "env_txpool_fails = (env_ok ''proposer'')\<lparr>NewTXPool_err := (\<lambda>_. Some (Err ''no pool''))\<rparr>"

text \<open>The supervisor \<^verbatim>\<open>NewShardInstance\<close> builds for an attester, and the same after \<^verbatim>\<open>Close\<close>.\<close>

definition node_attester :: ShardEthereum where
  "node_attester = fst (NewShardInstance_body (env_ok ''attester''))"

definition node_closed :: ShardEthereum where
  "node_closed = fst (Close node_attester)"

text \<open>
  A run in which \<^verbatim>\<open>Start\<close> gets to its wait, the handler installs itself and receives
  two notifications while the \<^verbatim>\<open>Close\<close> it has spawned runs to its end, and \<^verbatim>\<open>Start\<close>
  returns.
\<close>

definition example_run :: "action list" where
  "example_run =
     [ActStart, ActStart, ActStart, ActStart, ActStart, ActHandler, ActSignal,
      ActClose 0, ActClose 0, ActSignal, ActClose 0, ActClose 0, ActClose 0, ActClose 0,
      ActStart]"

text \<open>
  The process when \<^verbatim>\<open>Start\<close> waits at line 117 and the handler waits at line 103, for the
  supervisor of an attester; and ten notifications received while the spawned \<^verbatim>\<open>Close\<close>
  has closed the database and is held up at \<^verbatim>\<open>StopAll\<close>, and a second call of \<^verbatim>\<open>Close\<close>
  waits for the lock.
\<close>

definition system_installed :: system where
  "system_installed =
     \<lparr>node = called
         [CallLock, CallLogInfo [S ''Starting sharding node''],
          CallStartService P2PServerT, CallStartService RPCClientT,
          CallStartService BeaconT, CallStartService AttesterT,
          CallUnlock, CallSignalNotify] node_attester,
      start = S_Wait, handler = Some H_Running, closers = []\<rparr>"

definition signals_before_Close :: "action list" where
  "signals_before_Close =
     [ActSignal, ActSignal, ActClose 0, ActSignal, ActSignal, ActClose 0, ActSignal, ActSignal,
      ActSignal, ActCallClose, ActSignal, ActSignal, ActSignal]"

section \<open>Properties of the construction\<close>

subsection \<open>Unfolding the steps\<close>

lemmas step_defs = startDB_def registerP2P_def registerTXPool_def registerRPCClientService_def
  registerBeaconService_def registerActorService_def register_service_def fetch_service_def
  RegisterService_def FetchService_def called_def new_shardEthereum_def NewServiceRegistry_def

lemmas env_defs = env_ok_def env_db_fails_def env_p2p_fails_def env_txpool_fails_def

text \<open>\<^verbatim>\<open>NewShardInstance\<close> runs its six steps in the order of \<open>build_steps\<close>, up to the first error.\<close>

lemma body_run_steps:
  "NewShardInstance_body ctx = run_steps (build_steps ctx) new_shardEthereum"
  by (simp add: NewShardInstance_body_def build_steps_def Let_def split: prod.splits option.splits)

lemma run_steps_append:
  "run_steps (fs @ gs) s =
     (case run_steps fs s of (s', Some err) \<Rightarrow> (s', Some err) | (s', None) \<Rightarrow> run_steps gs s')"
  by (induction fs arbitrary: s) (auto split: prod.splits option.splits)

lemma run_steps_fail_at:
  assumes "k < length fs" "run_steps (take k fs) s = (s1, None)" "(fs ! k) s1 = (s2, Some err)"
  shows "run_steps fs s = (s2, Some err)"
proof -
  have "fs = take k fs @ (fs ! k) # drop (Suc k) fs"
    using assms(1) by (simp add: id_take_nth_drop)
  then have "run_steps fs s = run_steps (take k fs @ (fs ! k) # drop (Suc k) fs) s"
    by simp
  also have "\<dots> = (s2, Some err)"
    using assms(2,3) by (simp add: run_steps_append)
  finally show ?thesis .
qed

subsection \<open>An error of a step ends the construction\<close>

text \<open>
  Claim C3. Whatever the context, when a build step returns an error, after the steps
  before it have returned none, \<^verbatim>\<open>NewShardInstance\<close> returns that very error and
  \<^verbatim>\<open>nil\<close> for the supervisor. The steps \<open>0\<close> to \<open>4\<close> of \<open>build_steps\<close> are the opening
  of the storage and the registrations of the networking service, of the transaction
  pool, of the RPC client and of the beacon service.
\<close>

theorem NewShardInstance_step_error:
  assumes "k < 5"
    and "run_steps (take k (build_steps ctx)) new_shardEthereum = (s1, None)"
    and "(build_steps ctx ! k) s1 = (s2, Some err)"
  shows "NewShardInstance ctx = (None, Some err)"
proof -
  have "k < length (build_steps ctx)"
    using assms(1) by (simp add: build_steps_def)
  then have "NewShardInstance_body ctx = (s2, Some err)"
    using assms(2,3) by (simp add: body_run_steps run_steps_fail_at)
  then show ?thesis
    by (simp add: NewShardInstance_def)
qed

text \<open>
  The theorem at a context whose database cannot be opened (step 0) and at one whose
  transaction pool cannot be built (step 2).
\<close>

theorem NewShardInstance_step_error_witness:
  "(0::nat) < 5 \<and>
   run_steps (take 0 (build_steps env_db_fails)) new_shardEthereum = (new_shardEthereum, None) \<and>
   (build_steps env_db_fails ! 0) new_shardEthereum =
     (called [CallNewDB (db_config env_db_fails)] new_shardEthereum,
      Some (Err ''cannot open database'')) \<and>
   NewShardInstance env_db_fails = (None, Some (Err ''cannot open database'')) \<and>
   (2::nat) < 5 \<and>
   snd (run_steps (take 2 (build_steps env_txpool_fails)) new_shardEthereum) = None \<and>
   snd ((build_steps env_txpool_fails ! 2)
          (fst (run_steps (take 2 (build_steps env_txpool_fails)) new_shardEthereum))) =
     Some (Errorf ''could not register shard txpool service: %v'' (Err ''no pool'')) \<and>
   NewShardInstance env_txpool_fails =
     (None, Some (Errorf ''could not register shard txpool service: %v'' (Err ''no pool'')))"
proof -
  let ?s0 = "new_shardEthereum"
  have a: "run_steps (take 0 (build_steps env_db_fails)) ?s0 = (?s0, None)"
    by simp
  have b: "(build_steps env_db_fails ! 0) ?s0 =
      (called [CallNewDB (db_config env_db_fails)] ?s0, Some (Err ''cannot open database''))"
    by (simp add: build_steps_def startDB_def env_defs db_config_def Let_def)
  have c: "NewShardInstance env_db_fails = (None, Some (Err ''cannot open database''))"
    using NewShardInstance_step_error [of 0 env_db_fails, OF _ a b] by simp
  let ?r = "run_steps (take 2 (build_steps env_txpool_fails)) ?s0"
  let ?e = "Errorf ''could not register shard txpool service: %v'' (Err ''no pool'')"
  have d: "snd ?r = None"
    by (simp add: build_steps_def step_defs env_defs Let_def numeral_2_eq_2)
  have e: "snd ((build_steps env_txpool_fails ! 2) (fst ?r)) = Some ?e"
    by (simp add: build_steps_def step_defs env_defs Let_def numeral_2_eq_2)
  have d': "?r = (fst ?r, None)"
    using d by (simp add: prod_eq_iff)
  have e': "(build_steps env_txpool_fails ! 2) (fst ?r) =
      (fst ((build_steps env_txpool_fails ! 2) (fst ?r)), Some ?e)"
    using e by (simp add: prod_eq_iff)
  have f: "NewShardInstance env_txpool_fails = (None, Some ?e)"
    using NewShardInstance_step_error [of 2 env_txpool_fails, OF _ d' e'] by simp
  show ?thesis
    using a b c d e f by simp
qed

subsection \<open>The order of the build steps\<close>

text \<open>
  Claim C4. A construction that succeeds has made exactly these calls, in this order:
  it opens the database; it builds and registers the networking server; for a proposer it
  fetches the networking server, builds the transaction pool from it and registers the
  pool; it builds and registers the RPC client; it fetches the RPC client, builds the
  beacon service from it and registers it; it fetches the beacon service and, for an
  attester or a proposer, builds the actor from it and registers the actor. The registry
  holds the services in that order.
\<close>

theorem NewShardInstance_build_order:
  assumes "NewShardInstance ctx = (Some s, None)"
  shows "calls s =
     [CallNewDB (db_config ctx), CallNewServer, CallRegisterService P2PServer] @
     (if ActorFlag ctx = ''proposer''
      then [CallFetchService P2PServerT, CallNewTXPool P2PServer, CallRegisterService (TXPool P2PServer)]
      else []) @
     [CallNewRPCClient (BeaconRPCProviderFlag ctx),
      CallRegisterService (RPCClient (BeaconRPCProviderFlag ctx)),
      CallFetchService RPCClientT,
      CallNewBeaconClient (RPCClient (BeaconRPCProviderFlag ctx)),
      CallRegisterService (BeaconClient (RPCClient (BeaconRPCProviderFlag ctx))),
      CallFetchService BeaconT] @
     (if ActorFlag ctx = ''attester''
      then [CallNewAttester (BeaconClient (RPCClient (BeaconRPCProviderFlag ctx))),
            CallRegisterService (Attester (BeaconClient (RPCClient (BeaconRPCProviderFlag ctx))))]
      else if ActorFlag ctx = ''proposer''
      then [CallNewProposer (BeaconClient (RPCClient (BeaconRPCProviderFlag ctx))),
            CallRegisterService (Proposer (BeaconClient (RPCClient (BeaconRPCProviderFlag ctx))))]
      else []) \<and>
   db s = Some (DB (db_config ctx)) \<and>
   serviceTypes (services s) =
     [P2PServerT] @ (if ActorFlag ctx = ''proposer'' then [TXPoolT] else []) @
     [RPCClientT, BeaconT] @
     (if ActorFlag ctx = ''attester'' then [AttesterT]
      else if ActorFlag ctx = ''proposer'' then [ProposerT] else [])"
  using assms
  by (auto simp: NewShardInstance_def NewShardInstance_body_def step_defs db_config_def Let_def
      split: option.splits if_splits prod.splits sum.splits)

lemma NewShardInstance_env_ok:
  "NewShardInstance (env_ok actor) = (Some (fst (NewShardInstance_body (env_ok actor))), None)"
  by (simp add: NewShardInstance_def NewShardInstance_body_def step_defs env_defs Let_def
      split: option.splits prod.splits sum.splits)

text \<open>The theorem at a proposer whose constructors all succeed.\<close>

theorem NewShardInstance_build_order_witness:
  "NewShardInstance (env_ok ''proposer'') =
     (Some (fst (NewShardInstance_body (env_ok ''proposer''))), None) \<and>
   calls (fst (NewShardInstance_body (env_ok ''proposer''))) =
     [CallNewDB \<lparr>DataDir = ''/data'', Name = ''shardchaindata'', InMemory = False\<rparr>,
      CallNewServer, CallRegisterService P2PServer,
      CallFetchService P2PServerT, CallNewTXPool P2PServer, CallRegisterService (TXPool P2PServer),
      CallNewRPCClient ''localhost:4000'',
      CallRegisterService (RPCClient ''localhost:4000''),
      CallFetchService RPCClientT,
      CallNewBeaconClient (RPCClient ''localhost:4000''),
      CallRegisterService (BeaconClient (RPCClient ''localhost:4000'')),
      CallFetchService BeaconT,
      CallNewProposer (BeaconClient (RPCClient ''localhost:4000'')),
      CallRegisterService (Proposer (BeaconClient (RPCClient ''localhost:4000'')))] \<and>
   serviceTypes (services (fst (NewShardInstance_body (env_ok ''proposer'')))) =
     [P2PServerT, TXPoolT, RPCClientT, BeaconT, ProposerT]"
proof -
  let ?ctx = "env_ok ''proposer''"
  have h: "NewShardInstance ?ctx = (Some (fst (NewShardInstance_body ?ctx)), None)"
    by (rule NewShardInstance_env_ok)
  have flags: "ActorFlag ?ctx = ''proposer''" "BeaconRPCProviderFlag ?ctx = ''localhost:4000''"
    "db_config ?ctx = \<lparr>DataDir = ''/data'', Name = ''shardchaindata'', InMemory = False\<rparr>"
    by (simp_all add: env_ok_def db_config_def shardChainDBName_def)
  show ?thesis
    using h NewShardInstance_build_order [OF h] unfolding flags by simp
qed

subsection \<open>The actor role decides what is registered\<close>

text \<open>
  Claim C5. In a supervisor that \<^verbatim>\<open>NewShardInstance\<close> has built, a transaction pool is
  registered exactly when the role is \<^verbatim>\<open>"proposer"\<close>, an attester exactly when the role is
  \<^verbatim>\<open>"attester"\<close> and a proposer exactly when the role is \<^verbatim>\<open>"proposer"\<close>. For every other
  role (\<^verbatim>\<open>"none"\<close> or any other string) the step of the transaction pool returns no error
  and changes nothing, and the construction succeeds as soon as the database and the
  networking server can be built; the registry then holds the networking server, the RPC
  client and the beacon service, and nothing else.
\<close>

theorem actor_role_decides_registration:
  "(NewShardInstance ctx = (Some s, None) \<longrightarrow>
      (services_map (services s) TXPoolT \<noteq> None) = (ActorFlag ctx = ''proposer'') \<and>
      (TXPoolT \<in> set (serviceTypes (services s))) = (ActorFlag ctx = ''proposer'') \<and>
      (services_map (services s) AttesterT \<noteq> None) = (ActorFlag ctx = ''attester'') \<and>
      (AttesterT \<in> set (serviceTypes (services s))) = (ActorFlag ctx = ''attester'') \<and>
      (services_map (services s) ProposerT \<noteq> None) = (ActorFlag ctx = ''proposer'') \<and>
      (ProposerT \<in> set (serviceTypes (services s))) = (ActorFlag ctx = ''proposer'')) \<and>
   (ActorFlag ctx \<noteq> ''attester'' \<and> ActorFlag ctx \<noteq> ''proposer'' \<and>
    NewDB_err ctx (db_config ctx) = None \<and> NewServer_err ctx = None \<longrightarrow>
      NewShardInstance ctx = (Some (fst (NewShardInstance_body ctx)), None) \<and>
      serviceTypes (services (fst (NewShardInstance_body ctx))) = [P2PServerT, RPCClientT, BeaconT] \<and>
      registerTXPool ctx (ActorFlag ctx) s = (s, None))"
proof (intro conjI impI)
  assume ok: "NewShardInstance ctx = (Some s, None)"
  then have types: "serviceTypes (services s) =
     [P2PServerT] @ (if ActorFlag ctx = ''proposer'' then [TXPoolT] else []) @
     [RPCClientT, BeaconT] @
     (if ActorFlag ctx = ''attester'' then [AttesterT]
      else if ActorFlag ctx = ''proposer'' then [ProposerT] else [])"
    by (auto simp: NewShardInstance_def NewShardInstance_body_def step_defs db_config_def Let_def
      split: option.splits if_splits prod.splits sum.splits)
  show "(TXPoolT \<in> set (serviceTypes (services s))) = (ActorFlag ctx = ''proposer'')"
    by (simp add: types)
  show "(AttesterT \<in> set (serviceTypes (services s))) = (ActorFlag ctx = ''attester'')"
    by (simp add: types)
  show "(ProposerT \<in> set (serviceTypes (services s))) = (ActorFlag ctx = ''proposer'')"
    by (simp add: types)
  show "(services_map (services s) TXPoolT \<noteq> None) = (ActorFlag ctx = ''proposer'')"
    using ok
    by (auto simp: NewShardInstance_def NewShardInstance_body_def step_defs db_config_def Let_def
      split: option.splits if_splits prod.splits sum.splits)
  show "(services_map (services s) AttesterT \<noteq> None) = (ActorFlag ctx = ''attester'')"
    using ok
    by (auto simp: NewShardInstance_def NewShardInstance_body_def step_defs db_config_def Let_def
      split: option.splits if_splits prod.splits sum.splits)
  show "(services_map (services s) ProposerT \<noteq> None) = (ActorFlag ctx = ''proposer'')"
    using ok
    by (auto simp: NewShardInstance_def NewShardInstance_body_def step_defs db_config_def Let_def
      split: option.splits if_splits prod.splits sum.splits)
next
  assume h: "ActorFlag ctx \<noteq> ''attester'' \<and> ActorFlag ctx \<noteq> ''proposer'' \<and>
    NewDB_err ctx (db_config ctx) = None \<and> NewServer_err ctx = None"
  then show "NewShardInstance ctx = (Some (fst (NewShardInstance_body ctx)), None)"
    by (simp add: NewShardInstance_def NewShardInstance_body_def step_defs db_config_def Let_def)
  from h show "serviceTypes (services (fst (NewShardInstance_body ctx))) = [P2PServerT, RPCClientT, BeaconT]"
    by (simp add: NewShardInstance_def NewShardInstance_body_def step_defs db_config_def Let_def)
  from h show "registerTXPool ctx (ActorFlag ctx) s = (s, None)"
    by (simp add: registerTXPool_def)
qed

text \<open>The theorem at a proposer, at an attester and at the roles \<^verbatim>\<open>"validator"\<close> and \<^verbatim>\<open>"none"\<close>.\<close>

theorem actor_role_decides_registration_witness:
  "NewShardInstance (env_ok ''proposer'') = (Some (fst (NewShardInstance_body (env_ok ''proposer''))), None) \<and>
   services_map (services (fst (NewShardInstance_body (env_ok ''proposer'')))) TXPoolT \<noteq> None \<and>
   services_map (services (fst (NewShardInstance_body (env_ok ''proposer'')))) ProposerT \<noteq> None \<and>
   services_map (services (fst (NewShardInstance_body (env_ok ''proposer'')))) AttesterT = None \<and>
   NewShardInstance (env_ok ''attester'') = (Some (fst (NewShardInstance_body (env_ok ''attester''))), None) \<and>
   services_map (services (fst (NewShardInstance_body (env_ok ''attester'')))) TXPoolT = None \<and>
   services_map (services (fst (NewShardInstance_body (env_ok ''attester'')))) AttesterT \<noteq> None \<and>
   ActorFlag (env_ok ''validator'') \<noteq> ''attester'' \<and>
   ActorFlag (env_ok ''validator'') \<noteq> ''proposer'' \<and>
   NewDB_err (env_ok ''validator'') (db_config (env_ok ''validator'')) = None \<and>
   NewServer_err (env_ok ''validator'') = None \<and>
   NewShardInstance (env_ok ''validator'') = (Some (fst (NewShardInstance_body (env_ok ''validator''))), None) \<and>
   serviceTypes (services (fst (NewShardInstance_body (env_ok ''validator'')))) = [P2PServerT, RPCClientT, BeaconT] \<and>
   serviceTypes (services (fst (NewShardInstance_body (env_ok ''none'')))) = [P2PServerT, RPCClientT, BeaconT]"
proof -
  have f: "\<And>a. ActorFlag (env_ok a) = a" "\<And>a. NewServer_err (env_ok a) = None"
    "\<And>a c. NewDB_err (env_ok a) c = None"
    by (simp_all add: env_ok_def)
  have p: "NewShardInstance (env_ok ''proposer'') = (Some (fst (NewShardInstance_body (env_ok ''proposer''))), None)"
    by (rule NewShardInstance_env_ok)
  have a: "NewShardInstance (env_ok ''attester'') = (Some (fst (NewShardInstance_body (env_ok ''attester''))), None)"
    by (rule NewShardInstance_env_ok)
  note P = actor_role_decides_registration [of "env_ok ''proposer''" "fst (NewShardInstance_body (env_ok ''proposer''))"]
  note A = actor_role_decides_registration [of "env_ok ''attester''" "fst (NewShardInstance_body (env_ok ''attester''))"]
  note V = actor_role_decides_registration [of "env_ok ''validator''" "fst (NewShardInstance_body (env_ok ''validator''))"]
  note N = actor_role_decides_registration [of "env_ok ''none''" "fst (NewShardInstance_body (env_ok ''none''))"]
  show ?thesis
    using p a P A V N unfolding f by simp
qed

subsection \<open>A storage that cannot be opened\<close>

text \<open>
  Claim C9. When \<^verbatim>\<open>database.NewDB\<close> fails for the configuration of \<^verbatim>\<open>startDB\<close>,
  \<^verbatim>\<open>NewShardInstance\<close> returns that error and \<^verbatim>\<open>nil\<close>, and at its return the registry is
  empty: the only call made is the one that tried to open the database.
\<close>

theorem storage_failure_registers_nothing:
  assumes "NewDB_err ctx (db_config ctx) = Some err"
  shows "NewShardInstance ctx = (None, Some err) \<and>
         serviceTypes (services (fst (NewShardInstance_body ctx))) = [] \<and>
         services_map (services (fst (NewShardInstance_body ctx))) = Map.empty \<and>
         calls (fst (NewShardInstance_body ctx)) = [CallNewDB (db_config ctx)] \<and>
         db (fst (NewShardInstance_body ctx)) = None"
  using assms
  by (simp add: NewShardInstance_def NewShardInstance_body_def startDB_def db_config_def
      called_def new_shardEthereum_def NewServiceRegistry_def Let_def)

text \<open>The theorem at a context whose database cannot be opened.\<close>

theorem storage_failure_registers_nothing_witness:
  "NewDB_err env_db_fails (db_config env_db_fails) = Some (Err ''cannot open database'') \<and>
   NewShardInstance env_db_fails = (None, Some (Err ''cannot open database'')) \<and>
   serviceTypes (services (fst (NewShardInstance_body env_db_fails))) = [] \<and>
   calls (fst (NewShardInstance_body env_db_fails)) =
     [CallNewDB \<lparr>DataDir = ''/data'', Name = ''shardchaindata'', InMemory = False\<rparr>]"
proof -
  have h: "NewDB_err env_db_fails (db_config env_db_fails) = Some (Err ''cannot open database'')"
    by (simp add: env_db_fails_def)
  have c: "db_config env_db_fails = \<lparr>DataDir = ''/data'', Name = ''shardchaindata'', InMemory = False\<rparr>"
    by (simp add: env_defs db_config_def shardChainDBName_def)
  show ?thesis
    using h storage_failure_registers_nothing [OF h] unfolding c by simp
qed

subsection \<open>The actor step fetches the beacon service first\<close>

text \<open>
  Claim C10. Whatever the role, the first thing \<^verbatim>\<open>registerActorService\<close> does is to fetch
  the beacon service. When the registry holds none, the step returns the error of the
  lookup for every role, also for the roles that register no actor; when it holds one and
  the role is neither \<^verbatim>\<open>"attester"\<close> nor \<^verbatim>\<open>"proposer"\<close>, the step returns no error and has
  made that one call.
\<close>

theorem registerActorService_fetches_first:
  "(\<exists>cs. new_calls s (fst (registerActorService actor s)) = CallFetchService BeaconT # cs) \<and>
   (services_map (services s) BeaconT = None \<longrightarrow>
      registerActorService actor s =
        (called [CallFetchService BeaconT] s, Some (UnregisteredService BeaconT))) \<and>
   (services_map (services s) BeaconT \<noteq> None \<and> actor \<noteq> ''attester'' \<and> actor \<noteq> ''proposer'' \<longrightarrow>
      registerActorService actor s = (called [CallFetchService BeaconT] s, None))"
  by (auto simp: registerActorService_def fetch_service_def FetchService_def register_service_def
      RegisterService_def called_def new_calls_def split: option.splits)

text \<open>The theorem at an empty registry and at the registry built for an attester.\<close>

theorem registerActorService_fetches_first_witness:
  "services_map (services new_shardEthereum) BeaconT = None \<and>
   registerActorService ''none'' new_shardEthereum =
     (called [CallFetchService BeaconT] new_shardEthereum, Some (UnregisteredService BeaconT)) \<and>
   registerActorService ''attester'' new_shardEthereum =
     (called [CallFetchService BeaconT] new_shardEthereum, Some (UnregisteredService BeaconT)) \<and>
   services_map (services node_attester) BeaconT \<noteq> None \<and>
   registerActorService ''none'' node_attester = (called [CallFetchService BeaconT] node_attester, None)"
proof -
  have h: "services_map (services new_shardEthereum) BeaconT = None"
    by (simp add: new_shardEthereum_def NewServiceRegistry_def)
  have b: "services_map (services node_attester) BeaconT \<noteq> None"
    by (simp add: node_attester_def NewShardInstance_body_def step_defs env_defs Let_def)
  show ?thesis
    using h b registerActorService_fetches_first [of new_shardEthereum "''none''"]
      registerActorService_fetches_first [of new_shardEthereum "''attester''"]
      registerActorService_fetches_first [of node_attester "''none''"]
    by simp
qed

section \<open>Properties of Close\<close>

lemma count_StopAll: "count_list (StopAll r) CallCloseStop = 0"
  by (auto simp: StopAll_def count_list_0_iff)

lemma Close_calls:
  "\<not> lock s \<Longrightarrow>
   calls (fst (Close s)) =
     calls s @ [CallLock, CallDBClose] @ StopAll (services s) @
     [CallLogInfo [S ''Stopping sharding node''], CallCloseStop, CallUnlock]"
  by (simp add: Close_def called_def Let_def)

lemma node_attester_eq:
  "node_attester =
     \<lparr>services = \<lparr>services_map =
          [P2PServerT \<mapsto> P2PServer, RPCClientT \<mapsto> RPCClient ''localhost:4000'',
           BeaconT \<mapsto> BeaconClient (RPCClient ''localhost:4000''),
           AttesterT \<mapsto> Attester (BeaconClient (RPCClient ''localhost:4000''))],
        serviceTypes = [P2PServerT, RPCClientT, BeaconT, AttesterT]\<rparr>,
      lock = False, stop_closed = False,
      db = Some (DB \<lparr>DataDir = ''/data'', Name = ''shardchaindata'', InMemory = False\<rparr>),
      calls =
        [CallNewDB \<lparr>DataDir = ''/data'', Name = ''shardchaindata'', InMemory = False\<rparr>,
         CallNewServer, CallRegisterService P2PServer,
         CallNewRPCClient ''localhost:4000'',
         CallRegisterService (RPCClient ''localhost:4000''),
         CallFetchService RPCClientT,
         CallNewBeaconClient (RPCClient ''localhost:4000''),
         CallRegisterService (BeaconClient (RPCClient ''localhost:4000'')),
         CallFetchService BeaconT,
         CallNewAttester (BeaconClient (RPCClient ''localhost:4000'')),
         CallRegisterService (Attester (BeaconClient (RPCClient ''localhost:4000'')))]\<rparr>"
  by (simp add: node_attester_def NewShardInstance_body_def step_defs env_defs Let_def
      shardChainDBName_def)

lemma node_attester_fields:
  "\<not> lock node_attester" "\<not> stop_closed node_attester"
  "serviceTypes (services node_attester) = [P2PServerT, RPCClientT, BeaconT, AttesterT]"
  by (simp_all add: node_attester_eq)

lemma node_closed_fields:
  "\<not> lock node_closed" "stop_closed node_closed"
  "serviceTypes (services node_closed) = [P2PServerT, RPCClientT, BeaconT, AttesterT]"
  "snd (Close node_attester) = Returned"
  by (simp_all add: node_closed_def Close_def called_def Let_def node_attester_fields)

subsection \<open>The sequence of Close\<close>

text \<open>
  Claim C6. Every run of \<^verbatim>\<open>Close\<close> that gets the lock makes exactly these calls, in this
  order: it takes the lock, closes the database, calls \<^verbatim>\<open>StopAll\<close> (a Stop for every
  registered service), logs the shutdown, runs \<^verbatim>\<open>close(s.stop)\<close> and releases the lock. So the
  database is closed before any service is stopped, and the stop signal is fired after
  \<^verbatim>\<open>StopAll\<close>, all between taking and releasing the lock; afterwards the signal is fired
  and the lock is free. (On a signal that is already fired the statement
  \<^verbatim>\<open>close(s.stop)\<close> is still run, and panics.)
\<close>

theorem Close_sequence:
  "\<not> lock s \<Longrightarrow>
   new_calls s (fst (Close s)) =
     [CallLock, CallDBClose] @ StopAll (services s) @
     [CallLogInfo [S ''Stopping sharding node''], CallCloseStop, CallUnlock] \<and>
   StopAll (services s) = map CallStopService (rev (serviceTypes (services s))) \<and>
   stop_closed (fst (Close s)) \<and> \<not> lock (fst (Close s)) \<and>
   services (fst (Close s)) = services s \<and> snd (Close s) \<noteq> Blocked"
  by (simp add: Close_def called_def new_calls_def Let_def StopAll_def)

text \<open>The theorem at the supervisor built for an attester, and at the same after a first \<^verbatim>\<open>Close\<close>.\<close>

theorem Close_sequence_witness:
  "\<not> lock node_attester \<and>
   new_calls node_attester (fst (Close node_attester)) =
     [CallLock, CallDBClose, CallStopService AttesterT, CallStopService BeaconT,
      CallStopService RPCClientT, CallStopService P2PServerT,
      CallLogInfo [S ''Stopping sharding node''], CallCloseStop, CallUnlock] \<and>
   \<not> lock node_closed \<and>
   new_calls node_closed (fst (Close node_closed)) =
     [CallLock, CallDBClose, CallStopService AttesterT, CallStopService BeaconT,
      CallStopService RPCClientT, CallStopService P2PServerT,
      CallLogInfo [S ''Stopping sharding node''], CallCloseStop, CallUnlock]"
  using Close_sequence [of node_attester] Close_sequence [of node_closed]
  by (simp add: node_attester_fields node_closed_fields StopAll_def)

subsection \<open>Close and a stop signal that is already fired\<close>

text \<open>
  Claim C2 says that a \<^verbatim>\<open>Close\<close> which runs after the stop signal has been fired does not
  close it a second time. The source has no such guard: the second \<^verbatim>\<open>Close\<close> on the
  supervisor of an attester runs \<^verbatim>\<open>close(s.stop)\<close> on the closed channel, and panics.
\<close>

theorem second_Close_closes_again:
  "stop_closed node_closed \<and> \<not> lock node_closed \<and>
   CallCloseStop \<in> set (new_calls node_closed (fst (Close node_closed))) \<and>
   snd (Close node_closed) = Panicked ''close of closed channel''"
  by (simp add: Close_def called_def new_calls_def Let_def node_closed_fields)

text \<open>
  Claim C2, amended. Every run of \<^verbatim>\<open>Close\<close> that gets the lock runs \<^verbatim>\<open>close(s.stop)\<close>
  exactly once. When the signal was not yet fired, this fires it and \<^verbatim>\<open>Close\<close> returns;
  when it was already fired, the closed channel is closed a second time and \<^verbatim>\<open>Close\<close>
  panics with Go's "close of closed channel". In both cases the signal is fired
  afterwards and the deferred unlock has released the lock.
\<close>

theorem Close_stop_signal:
  "\<not> lock s \<Longrightarrow>
   count_list (new_calls s (fst (Close s))) CallCloseStop = 1 \<and>
   snd (Close s) =
     (if stop_closed s then Panicked ''close of closed channel'' else Returned) \<and>
   stop_closed (fst (Close s)) \<and> \<not> lock (fst (Close s))"
  by (simp add: Close_def called_def new_calls_def Let_def count_StopAll)

text \<open>The theorem at a first and at a second \<^verbatim>\<open>Close\<close>.\<close>

theorem Close_stop_signal_witness:
  "\<not> lock node_attester \<and> \<not> stop_closed node_attester \<and>
   snd (Close node_attester) = Returned \<and>
   count_list (new_calls node_attester (fst (Close node_attester))) CallCloseStop = 1 \<and>
   \<not> lock node_closed \<and> stop_closed node_closed \<and>
   snd (Close node_closed) = Panicked ''close of closed channel'' \<and>
   count_list (new_calls node_closed (fst (Close node_closed))) CallCloseStop = 1"
  using Close_stop_signal [of node_attester] Close_stop_signal [of node_closed]
  by (simp add: node_attester_fields node_closed_fields)

text \<open>The six statements of a goroutine running \<^verbatim>\<open>Close\<close> alone are \<^verbatim>\<open>Close\<close>.\<close>

lemma close_steps_Close:
  "\<not> lock s \<Longrightarrow>
   Option.bind (close_step C_Lock s) (\<lambda>(pc, s).
   Option.bind (close_step pc s) (\<lambda>(pc, s).
   Option.bind (close_step pc s) (\<lambda>(pc, s).
   Option.bind (close_step pc s) (\<lambda>(pc, s).
   Option.bind (close_step pc s) (\<lambda>(pc, s).
   close_step pc s))))) =
   Some (if stop_closed s then C_Panicked else C_Returned, fst (Close s))"
  by (simp add: Close_def called_def Let_def)

section \<open>Properties of the handler of interrupt signals\<close>

lemma handler_run_pc:
  "fst (handler_run n) =
     (if n = 0 then H_Running
      else if n \<le> 10 then H_ShuttingDown (11 - int n)
      else H_ForcedTermination)"
proof (induction n)
  case 0
  show ?case by simp
next
  case (Suc n)
  then show ?case
    by (cases "handler_run n") (auto simp: loop_head_def split: prod.splits)
qed

lemma feed_Suc_right: "feed (Suc n) pc = fst (notify (feed n pc))"
  by (induction n arbitrary: pc) simp_all

lemma feed_ShuttingDown:
  "int m < k \<Longrightarrow> feed m (H_ShuttingDown k) = H_ShuttingDown (k - int m)"
proof (induction m)
  case 0
  show ?case by simp
next
  case (Suc m)
  then have "feed m (H_ShuttingDown k) = H_ShuttingDown (k - int m)" by simp
  with Suc.prems show ?case
    unfolding feed_Suc_right by (simp add: loop_head_def algebra_simps)
qed

lemma feed_forced:
  assumes "0 < k"
  shows "feed (nat k) (H_ShuttingDown k) = H_ForcedTermination"
proof -
  obtain m where m: "nat k = Suc m"
    using assms by (cases "nat k") auto
  then have "int m < k" "k - int m = 1" by linarith+
  then have "feed m (H_ShuttingDown k) = H_ShuttingDown 1"
    by (simp add: feed_ShuttingDown)
  then show ?thesis
    unfolding m feed_Suc_right by (simp add: loop_head_def)
qed

lemma handler_run_Suc_calls:
  "handler_run (Suc n) = (fst (notify (fst (handler_run n))), snd (handler_run n) @ snd (notify (fst (handler_run n))))"
  by (simp split: prod.splits)

lemma handler_run_feed: "fst (handler_run n) = feed n H_Running"
proof (induction n)
  case 0
  show ?case by simp
next
  case (Suc n)
  have "fst (handler_run (Suc n)) = fst (notify (fst (handler_run n)))"
    by (simp only: handler_run_Suc_calls fst_conv)
  with Suc show ?case
    by (simp only: feed_Suc_right)
qed

subsection \<open>The handler among the other goroutines\<close>

lemma run_append:
  "run (as @ bs) sys = (case run as sys of None \<Rightarrow> None | Some sys' \<Rightarrow> run bs sys')"
  by (induction as arbitrary: sys) (auto split: option.splits)

text \<open>
  Once the handler is installed, only a notification moves it, whatever \<^verbatim>\<open>Start\<close> and the
  calls of \<^verbatim>\<open>Close\<close> do in between.
\<close>

lemma system_installed_reached:
  "run [ActStart, ActStart, ActStart, ActStart, ActStart, ActHandler] (init_system node_attester) =
     Some system_installed"
  by (simp add: init_system_def step_def called_def node_attester_fields system_installed_def
      StartAll_def)

lemma notify_not_Install: "pc \<noteq> H_Install \<Longrightarrow> fst (notify pc) \<noteq> H_Install"
  by (cases pc) (auto simp: loop_head_def split: prod.splits)

lemma step_handler:
  assumes "step a sys = Some sys1" "handler sys = Some pc" "pc \<noteq> H_Install"
    "start sys = S_Wait \<or> start sys = S_Returned"
  shows "handler sys1 = Some (if a = ActSignal then fst (notify pc) else pc) \<and>
         (start sys1 = S_Wait \<or> start sys1 = S_Returned)"
proof (cases a)
  case ActStart
  with assms show ?thesis
    by (auto simp: step_def split: if_splits option.splits)
next
  case ActHandler
  with assms show ?thesis
    by (auto simp: step_def split: if_splits)
next
  case ActSignal
  with assms show ?thesis
    by (cases pc) (auto simp: step_def split: if_splits prod.splits)
next
  case ActCallClose
  with assms show ?thesis
    by (auto simp: step_def split: if_splits)
next
  case (ActClose i)
  with assms show ?thesis
    by (auto simp: step_def split: if_splits option.splits)
qed

lemma handler_counts_signals:
  "run acts sys = Some sys' \<Longrightarrow> handler sys = Some pc \<Longrightarrow> pc \<noteq> H_Install \<Longrightarrow>
   start sys = S_Wait \<or> start sys = S_Returned \<Longrightarrow>
   handler sys' = Some (feed (count_list acts ActSignal) pc)"
proof (induction acts arbitrary: sys pc)
  case Nil
  then show ?case by simp
next
  case (Cons a acts)
  from Cons.prems(1) obtain sys1 where s1: "step a sys = Some sys1" "run acts sys1 = Some sys'"
    by (auto split: option.splits)
  note h = step_handler [OF s1(1) Cons.prems(2) Cons.prems(3) Cons.prems(4)]
  show ?case
  proof (cases "a = ActSignal")
    case True
    with h have "handler sys1 = Some (fst (notify pc))" by simp
    from Cons.IH [OF s1(2) this notify_not_Install [OF Cons.prems(3)]] h True
    show ?thesis by simp
  next
    case False
    with h have "handler sys1 = Some pc" by simp
    from Cons.IH [OF s1(2) this Cons.prems(3)] h False
    show ?thesis by simp
  qed
qed

lemma signals_before_Close_result:
  "\<exists>sys. run signals_before_Close system_installed = Some sys \<and>
     handler sys = Some (H_ShuttingDown 1) \<and> closers sys = [C_StopAll, C_Lock] \<and>
     \<not> stop_closed (node sys)"
  by (simp add: signals_before_Close_def system_installed_def step_def called_def
      node_attester_fields loop_head_def warning_def)

subsection \<open>Forced termination\<close>

text \<open>
  Claim C1 says that the tenth notification received in all forces termination. In the
  source the first notification is received at line 103 and the loop of line 106 receives
  ten more before it is left: after ten notifications the handler still waits, with
  \<^verbatim>\<open>i = 1\<close>, and the eleventh forces termination.
\<close>

theorem tenth_notification_does_not_force:
  "fst (handler_run 10) = H_ShuttingDown 1 \<and> fst (handler_run 10) \<noteq> H_ForcedTermination \<and>
   fst (handler_run 11) = H_ForcedTermination"
  by (simp add: handler_run_pc)

text \<open>
  Claim C1, amended. The first notification takes the handler from \<open>H_Running\<close> to
  \<open>H_ShuttingDown\<close>, logging the interrupt and spawning \<^verbatim>\<open>Close\<close>. After \<open>n\<close>
  notifications, with \<open>1 \<le> n \<le> 10\<close>, it waits in \<open>H_ShuttingDown\<close> with \<^verbatim>\<open>i = 11 - n\<close>;
  it is in \<open>H_ForcedTermination\<close> exactly from the eleventh notification on. This holds
  in every run of the process, whatever the calls of \<^verbatim>\<open>Close\<close> have done meanwhile.
\<close>

theorem forced_termination_at_11:
  "notify H_Running =
     (H_ShuttingDown 10, [CallLogInfo [S ''Got interrupt, shutting down...''], CallGoClose]) \<and>
   fst (handler_run n) =
     (if n = 0 then H_Running
      else if n \<le> 10 then H_ShuttingDown (11 - int n)
      else H_ForcedTermination) \<and>
   (fst (handler_run n) = H_ForcedTermination) = (11 \<le> n) \<and>
   (run acts sys = Some sys' \<and> handler sys = Some H_Running \<and>
    (start sys = S_Wait \<or> start sys = S_Returned) \<longrightarrow>
      handler sys' = Some (fst (handler_run (count_list acts ActSignal))) \<and>
      (handler sys' = Some H_ForcedTermination) = (11 \<le> count_list acts ActSignal))"
proof -
  have "handler sys' = Some (fst (handler_run (count_list acts ActSignal)))"
    if "run acts sys = Some sys'" "handler sys = Some H_Running"
      "start sys = S_Wait \<or> start sys = S_Returned"
    using handler_counts_signals [OF that(1) that(2) _ that(3)]
    by (simp add: handler_run_feed)
  then show ?thesis
    by (simp add: handler_run_pc loop_head_def)
qed

text \<open>
  The theorem at one and at eleven notifications, and at a run where ten, then eleven
  notifications arrive while the spawned \<^verbatim>\<open>Close\<close> is held up.
\<close>

theorem forced_termination_at_11_witness:
  "fst (handler_run 1) = H_ShuttingDown 10 \<and> fst (handler_run 11) = H_ForcedTermination \<and>
   handler system_installed = Some H_Running \<and> start system_installed = S_Wait \<and>
   run signals_before_Close system_installed \<noteq> None \<and>
   handler (the (run signals_before_Close system_installed)) = Some (H_ShuttingDown 1) \<and>
   closers (the (run signals_before_Close system_installed)) = [C_StopAll, C_Lock] \<and>
   run (signals_before_Close @ [ActSignal]) system_installed \<noteq> None \<and>
   handler (the (run (signals_before_Close @ [ActSignal]) system_installed)) =
     Some H_ForcedTermination"
proof -
  have i: "handler system_installed = Some H_Running" "start system_installed = S_Wait"
    by (simp_all add: system_installed_def)
  obtain sys where sys: "run signals_before_Close system_installed = Some sys"
    "closers sys = [C_StopAll, C_Lock]"
    using signals_before_Close_result by blast
  have "step ActSignal sys \<noteq> None"
    using handler_counts_signals [OF sys(1) i(1)] i(2)
    by (simp add: step_def signals_before_Close_def loop_head_def split: prod.splits)
  then obtain sys' where sys': "run (signals_before_Close @ [ActSignal]) system_installed = Some sys'"
    using sys(1) by (auto simp: run_append)
  have c: "count_list signals_before_Close ActSignal = 10"
    by (simp add: signals_before_Close_def)
  note at = forced_termination_at_11
  have a: "fst (handler_run 1) = H_ShuttingDown 10"
    using at [where n = 1] by simp
  have b: "fst (handler_run 10) = H_ShuttingDown 1"
    using at [where n = 10] by simp
  have d: "fst (handler_run 11) = H_ForcedTermination"
    using at [where n = 11] by simp
  have e: "handler sys = Some (H_ShuttingDown 1)"
    using at [where acts = signals_before_Close and sys = system_installed and sys' = sys]
      i sys(1) c b by simp
  have f: "handler sys' = Some H_ForcedTermination"
    using at [where acts = "signals_before_Close @ [ActSignal]" and sys = system_installed
        and sys' = sys'] i sys' c by simp
  show ?thesis
    using a d e f i sys sys' by simp
qed

subsection \<open>The warnings\<close>

text \<open>
  Claim C8 says that every notification after the first logs a warning. The eleventh,
  received at \<^verbatim>\<open>i = 1\<close>, does not: line 108 guards the warning by \<^verbatim>\<open>i > 1\<close>, and the
  handler goes on to \<^verbatim>\<open>debug.Exit()\<close> and the panic.
\<close>

theorem last_notification_logs_nothing:
  "fst (handler_run 10) = H_ShuttingDown 1 \<and>
   notify (H_ShuttingDown 1) =
     (H_ForcedTermination,
      [CallDebugExit, CallPanic ''Panic closing the sharding node'', CallSignalStop])"
  by (simp add: handler_run_pc loop_head_def forced_exit_def)

text \<open>
  Claim C8, amended. A notification received in \<open>H_ShuttingDown\<close> with \<^verbatim>\<open>i > 1\<close> (the
  second to the tenth in all) logs one warning that carries \<^verbatim>\<open>i - 1\<close>, and leaves the
  handler waiting with \<^verbatim>\<open>i - 1\<close>; that number is exactly how many further notifications
  force termination, and it is one less at every notification. The notification received
  with \<^verbatim>\<open>i = 1\<close> (the eleventh) logs no warning and forces termination.
\<close>

theorem warnings_count_down:
  "(1 < i \<longrightarrow>
      notify (H_ShuttingDown i) = (H_ShuttingDown (i - 1), [warning (i - 1)]) \<and>
      feed (nat (i - 1)) (H_ShuttingDown (i - 1)) = H_ForcedTermination \<and>
      (\<forall>m. m < nat (i - 1) \<longrightarrow> feed m (H_ShuttingDown (i - 1)) \<noteq> H_ForcedTermination)) \<and>
   (2 \<le> n \<and> n \<le> 10 \<longrightarrow>
      handler_run n =
        (H_ShuttingDown (11 - int n), snd (handler_run (n - 1)) @ [warning (11 - int n)])) \<and>
   handler_run 11 =
     (H_ForcedTermination,
      snd (handler_run 10) @ forced_exit)"
proof (intro conjI impI allI)
  assume i: "1 < i"
  then show "notify (H_ShuttingDown i) = (H_ShuttingDown (i - 1), [warning (i - 1)])"
    by (simp add: loop_head_def)
  from i show "feed (nat (i - 1)) (H_ShuttingDown (i - 1)) = H_ForcedTermination"
    by (simp add: feed_forced)
  fix m assume "m < nat (i - 1)"
  then have "int m < i - 1" by linarith
  then show "feed m (H_ShuttingDown (i - 1)) \<noteq> H_ForcedTermination"
    by (simp add: feed_ShuttingDown)
next
  assume n: "2 \<le> n \<and> n \<le> 10"
  then obtain k where k: "n = Suc k" "1 \<le> k" "k \<le> 9"
    by (cases n) auto
  have pc: "fst (handler_run k) = H_ShuttingDown (11 - int k)"
    using k by (simp add: handler_run_pc)
  show "handler_run n =
      (H_ShuttingDown (11 - int n), snd (handler_run (n - 1)) @ [warning (11 - int n)])"
    unfolding k(1) handler_run_Suc_calls pc using k(2,3)
    by (simp add: loop_head_def algebra_simps)
next
  have pc: "fst (handler_run 10) = H_ShuttingDown 1"
    by (simp add: handler_run_pc)
  have "handler_run (Suc 10) =
      (H_ForcedTermination,
       snd (handler_run 10) @ forced_exit)"
    unfolding handler_run_Suc_calls pc by (simp add: loop_head_def)
  then show "handler_run 11 =
      (H_ForcedTermination,
       snd (handler_run 10) @ forced_exit)"
    by simp
qed

theorem warnings_count_down_witness:
  "(1::int) < 10 \<and>
   notify (H_ShuttingDown 10) = (H_ShuttingDown 9, [warning 9]) \<and>
   feed 9 (H_ShuttingDown 9) = H_ForcedTermination \<and>
   feed 8 (H_ShuttingDown 9) \<noteq> H_ForcedTermination \<and>
   (2::nat) \<le> 2 \<and> (2::nat) \<le> 10 \<and>
   handler_run 2 = (H_ShuttingDown 9, snd (handler_run 1) @ [warning 9])"
  using warnings_count_down [of 10 2] by simp

section \<open>Start returns only after Close\<close>

lemma start_step_stop:
  "start_step pc s = Some (pc', s') \<Longrightarrow> stop_closed s' = stop_closed s"
  by (cases pc) (auto simp: called_def split: if_splits)

lemma start_step_Returned:
  "start_step pc s = Some (S_Returned, s') \<Longrightarrow> stop_closed s"
  by (cases pc) (auto split: if_splits)

lemma close_step_stop:
  "close_step pc s = Some (pc', s') \<Longrightarrow> stop_closed s \<Longrightarrow> stop_closed s'"
  by (cases pc) (auto simp: called_def split: if_splits)

lemma close_step_fired:
  "close_step pc s = Some (pc', s') \<Longrightarrow> fired pc \<Longrightarrow> fired pc'"
  by (cases pc) (auto split: if_splits)

lemma close_step_fires:
  "close_step pc s = Some (pc', s') \<Longrightarrow> \<not> stop_closed s \<Longrightarrow> stop_closed s' \<Longrightarrow> fired pc'"
  by (cases pc) (auto simp: called_def split: if_splits)

lemma fired_update:
  assumes "\<exists>c\<in>set cs. fired c" "i < length cs" "fired (cs ! i) \<longrightarrow> fired pc"
  shows "\<exists>c\<in>set (cs[i := pc]). fired c"
proof -
  from assms(1) obtain j where j: "j < length cs" "fired (cs ! j)"
    by (auto simp: in_set_conv_nth)
  show ?thesis
  proof (cases "j = i")
    case True
    with j assms have "fired pc" by simp
    moreover have "pc \<in> set (cs[i := pc])"
      using assms(2) by (simp add: set_update_memI)
    ultimately show ?thesis by blast
  next
    case False
    then have "(cs[i := pc]) ! j = cs ! j" by simp
    moreover have "j < length (cs[i := pc])" using j by simp
    ultimately have "cs ! j \<in> set (cs[i := pc])"
      by (metis nth_mem)
    with j show ?thesis by blast
  qed
qed

lemma step_signal:
  "step ActSignal sys = Some sys' \<Longrightarrow>
   start sys' = start sys \<and> stop_closed (node sys') = stop_closed (node sys) \<and>
   set (closers sys) \<subseteq> set (closers sys')"
  by (auto simp: step_def called_def split: if_splits option.splits handler_pc.splits prod.splits)

lemma step_preserves:
  assumes st: "step a sys = Some sys'"
    and r: "start sys = S_Returned \<longrightarrow> stop_closed (node sys)"
    and c: "stop_closed (node sys) \<longrightarrow> (\<exists>c\<in>set (closers sys). fired c)"
  shows "(start sys' = S_Returned \<longrightarrow> stop_closed (node sys')) \<and>
         (stop_closed (node sys') \<longrightarrow> (\<exists>c\<in>set (closers sys'). fired c))"
proof (cases a)
  case ActStart
  with st obtain pc s where ss: "start_step (start sys) (node sys) = Some (pc, s)"
    and sys': "sys' = sys\<lparr>node := s, start := pc,
        handler := (if start sys = S_Go then Some H_Install else handler sys)\<rparr>"
    by (auto simp: step_def split: if_splits option.splits)
  have "stop_closed s = stop_closed (node sys)"
    using ss by (rule start_step_stop)
  moreover have "pc = S_Returned \<longrightarrow> stop_closed (node sys)"
    using ss start_step_Returned by blast
  ultimately show ?thesis
    using c by (simp add: sys')
next
  case ActHandler
  with st have "sys' = sys\<lparr>node := called [CallSignalNotify] (node sys), handler := Some H_Running\<rparr>"
    by (auto simp: step_def split: if_splits)
  then show ?thesis
    using r c by (simp add: called_def)
next
  case ActSignal
  with st have "start sys' = start sys \<and> stop_closed (node sys') = stop_closed (node sys) \<and>
      set (closers sys) \<subseteq> set (closers sys')"
    by (rule_tac step_signal) simp
  then show ?thesis
    using r c by auto
next
  case ActCallClose
  with st have "sys' = sys\<lparr>closers := closers sys @ [C_Lock]\<rparr>"
    by (auto simp: step_def split: if_splits)
  then show ?thesis
    using r c by auto
next
  case (ActClose i)
  with st obtain pc s where i: "i < length (closers sys)"
    and cs: "close_step (closers sys ! i) (node sys) = Some (pc, s)"
    and sys': "sys' = sys\<lparr>node := s, closers := (closers sys)[i := pc]\<rparr>"
    by (auto simp: step_def split: if_splits option.splits)
  have a: "start sys' = S_Returned \<longrightarrow> stop_closed (node sys')"
    using r cs close_step_stop by (auto simp: sys')
  have b: "\<exists>c\<in>set ((closers sys)[i := pc]). fired c" if "stop_closed s"
  proof (cases "stop_closed (node sys)")
    case True
    with c have "\<exists>c\<in>set (closers sys). fired c" by simp
    moreover have "fired (closers sys ! i) \<longrightarrow> fired pc"
      using cs close_step_fired by blast
    ultimately show ?thesis
      using i by (simp add: fired_update)
  next
    case False
    with cs that have "fired pc" by (simp add: close_step_fires)
    moreover have "pc \<in> set ((closers sys)[i := pc])"
      using i by (simp add: set_update_memI)
    ultimately show ?thesis by blast
  qed
  show ?thesis
    using a b by (simp add: sys')
qed

lemma run_preserves:
  "run acts sys = Some sys' \<Longrightarrow>
   (start sys = S_Returned \<longrightarrow> stop_closed (node sys)) \<Longrightarrow>
   (stop_closed (node sys) \<longrightarrow> (\<exists>c\<in>set (closers sys). fired c)) \<Longrightarrow>
   (start sys' = S_Returned \<longrightarrow> stop_closed (node sys')) \<and>
   (stop_closed (node sys') \<longrightarrow> (\<exists>c\<in>set (closers sys'). fired c))"
proof (induction acts arbitrary: sys)
  case Nil
  then show ?case by simp
next
  case (Cons a acts)
  from Cons.prems(1) obtain sys1 where s1: "step a sys = Some sys1" "run acts sys1 = Some sys'"
    by (auto split: option.splits)
  from step_preserves [OF s1(1) Cons.prems(2) Cons.prems(3)]
  show ?case
    using Cons.IH [OF s1(2)] by blast
qed

text \<open>
  Claim C7. Take a supervisor whose stop signal is not fired and any run of the process
  from the call of \<^verbatim>\<open>Start\<close>. If \<^verbatim>\<open>Start\<close> has returned then the stop signal is fired; and
  whenever the stop signal is fired, some call of \<^verbatim>\<open>Close\<close> has run its
  \<^verbatim>\<open>close(s.stop)\<close>. So \<^verbatim>\<open>Start\<close> does not return before a \<^verbatim>\<open>Close\<close>, called from another
  goroutine, has got to the point of firing the signal.
\<close>

theorem Start_returns_after_Close:
  assumes "\<not> stop_closed s" and "run acts (init_system s) = Some sys"
  shows "(start sys = S_Returned \<longrightarrow> stop_closed (node sys)) \<and>
         (stop_closed (node sys) \<longrightarrow> (\<exists>c\<in>set (closers sys). fired c))"
  using assms(2)
  by (rule run_preserves) (simp_all add: init_system_def assms(1))

text \<open>
  The theorem at a run in which \<^verbatim>\<open>Start\<close> returns after the handler's \<^verbatim>\<open>Close\<close>; with no
  \<^verbatim>\<open>Close\<close>, \<^verbatim>\<open>Start\<close> cannot take a sixth step.
\<close>

lemma example_run_result:
  "\<exists>sys. run example_run (init_system node_attester) = Some sys \<and> start sys = S_Returned \<and>
     closers sys = [C_Returned] \<and> handler sys = Some (H_ShuttingDown 9) \<and> stop_closed (node sys)"
  by (simp add: example_run_def init_system_def step_def called_def node_attester_fields
      loop_head_def warning_def)

lemma blocked_without_Close:
  "run [ActStart, ActStart, ActStart, ActStart, ActStart, ActStart] (init_system node_attester) = None"
  by (simp add: init_system_def step_def called_def node_attester_fields)

theorem Start_returns_after_Close_witness:
  "\<not> stop_closed node_attester \<and>
   run example_run (init_system node_attester) \<noteq> None \<and>
   start (the (run example_run (init_system node_attester))) = S_Returned \<and>
   stop_closed (node (the (run example_run (init_system node_attester)))) \<and>
   closers (the (run example_run (init_system node_attester))) = [C_Returned] \<and>
   run [ActStart, ActStart, ActStart, ActStart, ActStart, ActStart] (init_system node_attester) = None"
proof -
  obtain sys where sys: "run example_run (init_system node_attester) = Some sys"
    "start sys = S_Returned" "closers sys = [C_Returned]"
    using example_run_result by blast
  have "stop_closed (node sys)"
    using Start_returns_after_Close [OF node_attester_fields(2) sys(1)] sys(2) by simp
  then show ?thesis
    using sys blocked_without_Close by (simp add: node_attester_fields)
qed

end
